theory Spec2Isabelle
  imports Main "HOL-Library.Word"
begin

unbundle bit_operations_syntax

section \<open>JavaScript strings\<close>

text \<open>
  A JavaScript string is a sequence of 16-bit code units; \<open>+\<close> and template literals
  concatenate the units, \<open>substring(0, n)\<close> keeps the first \<open>n\<close> of them. The ASCII part
  of a literal of \<^verbatim>\<open>dist/index.js\<close> is written \<open>ascii ''...''\<close>, the other characters
  (the Chinese text of the messages) as their code units.
\<close>

type_synonym jstring = "16 word list"

definition ascii :: "string \<Rightarrow> jstring" where
  "ascii s = map of_char s"

text \<open>\<open>Array.prototype.join\<close> on strings.\<close>

fun join :: "jstring \<Rightarrow> jstring list \<Rightarrow> jstring" where
  "join sep [] = []"
| "join sep [x] = x"
| "join sep (x # y # ys) = x @ sep @ join sep (y # ys)"

section \<open>JSON values\<close>

text \<open>
  What \<open>JSON.parse\<close> can produce and what the object literals of the program are. A number
  is carried as the text \<open>Number::toString\<close> gives for it: a string conversion is all the
  program ever does with a number. An object is the list of its own properties in
  property order, each name once. Every object has \<open>Object.prototype\<close> as its prototype
  and every array \<open>Array.prototype\<close> (a \<open>__proto__\<close> member of a JSON text becomes an own
  property).
\<close>

datatype json =
    JNull
  | JBool bool
  | JNum jstring
  | JStr jstring
  | JArr "json list"
  | JObj "(jstring \<times> json) list"

text \<open>What the program throws: \<open>new Error(message)\<close>, and the engine's \<open>TypeError\<close>.\<close>

datatype js_exn = Error jstring | TypeError jstring

fun exn_message :: "js_exn \<Rightarrow> jstring" where
  "exn_message (Error m) = m"
| "exn_message (TypeError m) = m"

text \<open>
  The message of the \<open>TypeError\<close> of a failed \<open>ToPrimitive\<close>; the wording is the engine's
  (V8), the program has no text of its own for it.
\<close>

definition to_primitive_failure :: js_exn where
  "to_primitive_failure = TypeError (ascii ''Cannot convert object to primitive value'')"

text \<open>
  \<open>ToString\<close> of a JSON value, as a template literal \<^verbatim>\<open>`${v}`\<close> and a computed property
  name \<^verbatim>\<open>o[v]\<close> apply it.
  \<^item> An array converts by \<open>Array.prototype.join\<close>: the elements converted in order and
    separated by commas, \<open>null\<close> giving the empty string.
  \<^item> An object converts by \<open>OrdinaryToPrimitive\<close> with hint string: \<open>toString\<close> is looked
    up first, and an own property of that name hides \<open>Object.prototype.toString\<close>. A JSON
    value is never callable, so it is skipped; \<open>valueOf\<close> is then either an own JSON
    value (skipped too) or \<open>Object.prototype.valueOf\<close>, which returns the object itself,
    and the conversion throws a \<open>TypeError\<close>. Without an own \<open>toString\<close> the inherited one
    answers \<^verbatim>\<open>[object Object]\<close>.
\<close>

fun to_string :: "json \<Rightarrow> js_exn + jstring"
  and join_elements :: "json list \<Rightarrow> js_exn + jstring" where
  "to_string JNull = Inr (ascii ''null'')"
| "to_string (JBool b) = Inr (if b then ascii ''true'' else ascii ''false'')"
| "to_string (JNum t) = Inr t"
| "to_string (JStr s) = Inr s"
| "to_string (JArr xs) = join_elements xs"
| "to_string (JObj kvs) =
     (if ascii ''toString'' \<in> fst ` set kvs then Inl to_primitive_failure
      else Inr (ascii ''[object Object]''))"
| "join_elements [] = Inr []"
| "join_elements (x # xs) =
     (case (if x = JNull then Inr [] else to_string x) of
        Inl e \<Rightarrow> Inl e
      | Inr s \<Rightarrow>
          (if xs = [] then Inr s
           else (case join_elements xs of
                   Inl e \<Rightarrow> Inl e
                 | Inr r \<Rightarrow> Inr (s @ ascii '','' @ r))))"

text \<open>\<open>ToString\<close> of a value that may be \<open>undefined\<close> (\<open>None\<close>).\<close>

fun to_string_opt :: "json option \<Rightarrow> js_exn + jstring" where
  "to_string_opt None = Inr (ascii ''undefined'')"
| "to_string_opt (Some v) = to_string v"

text \<open>
  The values whose conversion does not throw, read off the structure: no object with an
  own \<open>toString\<close> property, at the top or as an element of an array (in any depth).
  The members of an object are never converted, so they do not matter.
\<close>

fun convertible :: "json \<Rightarrow> bool"
  and all_convertible :: "json list \<Rightarrow> bool" where
  "convertible (JArr xs) = all_convertible xs"
| "convertible (JObj kvs) = (ascii ''toString'' \<notin> fst ` set kvs)"
| "convertible JNull = True"
| "convertible (JBool b) = True"
| "convertible (JNum t) = True"
| "convertible (JStr s) = True"
| "all_convertible [] = True"
| "all_convertible (x # xs) = (convertible x \<and> all_convertible xs)"

section \<open>\<open>JSON.stringify(value, null, 2)\<close>\<close>

definition hex_digit :: "16 word \<Rightarrow> 16 word" where
  "hex_digit d = (if d < 10 then 0x30 + d else 0x57 + d)"

text \<open>\<open>UnicodeEscape\<close>: \<^verbatim>\<open>\u\<close> and four lowercase hexadecimal digits.\<close>

definition unicode_escape :: "16 word \<Rightarrow> jstring" where
  "unicode_escape c =
     [0x5C, 0x75] @ map (\<lambda>i. hex_digit (drop_bit i c AND 0xF)) [12, 8, 4, 0]"

definition is_leading_surrogate :: "16 word \<Rightarrow> bool" where
  "is_leading_surrogate c = (0xD800 \<le> c \<and> c \<le> 0xDBFF)"

definition is_trailing_surrogate :: "16 word \<Rightarrow> bool" where
  "is_trailing_surrogate c = (0xDC00 \<le> c \<and> c \<le> 0xDFFF)"

text \<open>
  One code point of \<open>QuoteJSONString\<close> that is a single code unit: the two-character
  escapes of backspace, tab, line feed, form feed, carriage return, the double quote and
  the backslash; a \<open>UnicodeEscape\<close> for the other control characters and for a surrogate
  without its partner; the unit itself otherwise.
\<close>

definition quote_unit :: "16 word \<Rightarrow> jstring" where
  "quote_unit c =
     (if c = 0x08 then [0x5C, 0x62]
      else if c = 0x09 then [0x5C, 0x74]
      else if c = 0x0A then [0x5C, 0x6E]
      else if c = 0x0C then [0x5C, 0x66]
      else if c = 0x0D then [0x5C, 0x72]
      else if c = 0x22 then [0x5C, 0x22]
      else if c = 0x5C then [0x5C, 0x5C]
      else if c < 0x20 \<or> is_leading_surrogate c \<or> is_trailing_surrogate c
        then unicode_escape c
      else [c])"

text \<open>A leading surrogate followed by a trailing one is one code point and is kept.\<close>

fun quote_units :: "jstring \<Rightarrow> jstring" where
  "quote_units [] = []"
| "quote_units [c] = quote_unit c"
| "quote_units (c # d # ds) =
     (if is_leading_surrogate c \<and> is_trailing_surrogate d then c # d # quote_units ds
      else quote_unit c @ quote_units (d # ds))"

definition QuoteJSONString :: "jstring \<Rightarrow> jstring" where
  "QuoteJSONString s = [0x22] @ quote_units s @ [0x22]"

text \<open>The gap of the indent argument \<open>2\<close>: two spaces.\<close>

definition gap :: jstring where
  "gap = ascii ''  ''"

text \<open>
  \<open>SerializeJSONProperty\<close> at the indentation \<open>ind\<close>, with a non-empty gap. No value of
  the program has a callable \<open>toJSON\<close>, and none is \<open>undefined\<close> or a function.
\<close>

fun serialize :: "jstring \<Rightarrow> json \<Rightarrow> jstring"
  and serialize_elements :: "jstring \<Rightarrow> json list \<Rightarrow> jstring list"
  and serialize_members :: "jstring \<Rightarrow> (jstring \<times> json) list \<Rightarrow> jstring list" where
  "serialize ind JNull = ascii ''null''"
| "serialize ind (JBool b) = (if b then ascii ''true'' else ascii ''false'')"
| "serialize ind (JNum t) = t"
| "serialize ind (JStr s) = QuoteJSONString s"
| "serialize ind (JArr xs) =
     (if xs = [] then ascii ''[]''
      else ascii ''['' @ [0x0A] @ (ind @ gap)
        @ join (ascii '','' @ [0x0A] @ (ind @ gap)) (serialize_elements (ind @ gap) xs)
        @ [0x0A] @ ind @ ascii '']'')"
| "serialize ind (JObj kvs) =
     (if kvs = [] then ascii ''{}''
      else ascii ''{'' @ [0x0A] @ (ind @ gap)
        @ join (ascii '','' @ [0x0A] @ (ind @ gap)) (serialize_members (ind @ gap) kvs)
        @ [0x0A] @ ind @ ascii ''}'')"
| "serialize_elements ind [] = []"
| "serialize_elements ind (x # xs) = serialize ind x # serialize_elements ind xs"
| "serialize_members ind [] = []"
| "serialize_members ind ((k, v) # kvs) =
     (QuoteJSONString k @ ascii '': '' @ serialize ind v) # serialize_members ind kvs"

definition stringify :: "json \<Rightarrow> jstring" where
  "stringify v = serialize [] v"

section \<open>The process environment\<close>

text \<open>
  \<open>process.env\<close> after \<open>config()\<close> of dotenv has run: the variables that are set, each
  with its string value.
\<close>

type_synonym environ = "jstring \<rightharpoonup> jstring"

text \<open>
  \<open>v || d\<close> and the truth value of \<open>v\<close>, for \<open>v\<close> a string or \<open>undefined\<close>: the empty
  string is falsy like \<open>undefined\<close>.
\<close>

definition truthy :: "jstring option \<Rightarrow> bool" where
  "truthy v = (case v of None \<Rightarrow> False | Some s \<Rightarrow> s \<noteq> [])"

definition or_else :: "jstring option \<Rightarrow> jstring \<Rightarrow> jstring" where
  "or_else v d = (case v of None \<Rightarrow> d | Some s \<Rightarrow> if s \<noteq> [] then s else d)"

text \<open>
  \<open>process.env\<close> is an object with the prototype \<open>Object.prototype\<close>. A read
  \<open>process.env[k]\<close> gives the variable \<open>k\<close> when it is set; when it is not, the read
  goes on to the prototype, which has these twelve members (V8), and is \<open>undefined\<close>
  only for every other name.
\<close>

definition object_prototype_names :: "jstring list" where
  "object_prototype_names = map ascii
     [''constructor'', ''__defineGetter__'', ''__defineSetter__'', ''hasOwnProperty'',
      ''__lookupGetter__'', ''__lookupSetter__'', ''isPrototypeOf'',
      ''propertyIsEnumerable'', ''toString'', ''valueOf'', ''__proto__'',
      ''toLocaleString'']"

datatype env_value = Variable jstring | Inherited jstring

definition env_read :: "environ \<Rightarrow> jstring \<Rightarrow> env_value option" where
  "env_read env k =
     (case env k of
        Some v \<Rightarrow> Some (Variable v)
      | None \<Rightarrow> if k \<in> set object_prototype_names then Some (Inherited k) else None)"

text \<open>
  \<open>ToString\<close> of what a read of \<open>process.env\<close> gave. The inherited \<open>__proto__\<close> is
  \<open>Object.prototype\<close> itself; the other inherited members are built-in functions, printed
  by V8 as \<^verbatim>\<open>function name() { [native code] }\<close> (\<open>constructor\<close> is the function
  \<open>Object\<close>).
\<close>

definition env_value_text :: "env_value \<Rightarrow> jstring" where
  "env_value_text v =
     (case v of
        Variable s \<Rightarrow> s
      | Inherited k \<Rightarrow>
          if k = ascii ''__proto__'' then ascii ''[object Object]''
          else ascii ''function ''
            @ (if k = ascii ''constructor'' then ascii ''Object'' else k)
            @ ascii ''() { [native code] }'')"

section \<open>Startup: \<open>validateEnvironment\<close>\<close>

definition REQUIRED_ENV_VARS :: "jstring list" where
  "REQUIRED_ENV_VARS = [ascii ''API_KEY'', ascii ''SERVER_NAME'']"

text \<open>
  The loop over \<open>REQUIRED_ENV_VARS\<close> that pushes every name whose variable is falsy.
  (Neither name is a member of \<open>Object.prototype\<close>, so the read is the variable or
  \<open>undefined\<close>; the same holds for the five names \<open>get_config\<close> reads.)
\<close>

definition missing_vars :: "environ \<Rightarrow> jstring list" where
  "missing_vars env = filter (\<lambda>varName. \<not> truthy (env varName)) REQUIRED_ENV_VARS"

text \<open>
  The object printed as the example of a launcher configuration, with
  \<open>Object.fromEntries(missing.map(v => [v, "your-value-here"]))\<close> as its \<open>env\<close>.
\<close>

definition launcher_example :: "jstring list \<Rightarrow> json" where
  "launcher_example missing =
     JObj [(ascii ''mcpServers'',
       JObj [(ascii ''mcp-server'',
         JObj [(ascii ''command'', JStr (ascii ''npx'')),
               (ascii ''args'', JArr [JStr (ascii ''-y''), JStr (ascii ''path/to/your/project'')]),
               (ascii ''env'', JObj (map (\<lambda>v. (v, JStr (ascii ''your-value-here''))) missing))])])]"

text \<open>\<^verbatim>\<open>`${v}`\<close> for \<open>v\<close> a string or \<open>undefined\<close>.\<close>

definition string_or_undefined :: "jstring option \<Rightarrow> jstring" where
  "string_or_undefined v = (case v of None \<Rightarrow> ascii ''undefined'' | Some s \<Rightarrow> s)"

text \<open>
  \<open>validateEnvironment\<close>: the lines it writes with \<open>console.error\<close>, in order, and the
  status of \<open>process.exit\<close> when it calls it (\<open>None\<close>: it returns). The Chinese texts are
  given by their code units; lines 19 to 42 of the source.
\<close>

definition validateEnvironment :: "environ \<Rightarrow> jstring list \<times> nat option" where
  "validateEnvironment env =
     (let missing = missing_vars env in
      if length missing > 0 then
        ([[0x274C] @ ascii '' '' @ [0x9519, 0x8BEF, 0xFF1A, 0x7F3A, 0x5C11, 0x5FC5, 0x9700,
             0x7684, 0x73AF, 0x5883, 0x53D8, 0x91CF, 0xFF01],
          [0x000A, 0x7F3A, 0x5C11, 0x7684, 0x53D8, 0x91CF] @ ascii '': ''
             @ join (ascii '', '') missing @ [0x000A],
          [0x8BF7, 0x6309, 0x4EE5, 0x4E0B, 0x6B65, 0x9AA4, 0x914D, 0x7F6E, 0xFF1A],
          ascii ''1. '' @ [0x590D, 0x5236] @ ascii '' .env.example '' @ [0x4E3A] @ ascii '' .env'',
          ascii ''   cp .env.example .env'',
          ascii ''2. '' @ [0x7F16, 0x8F91] @ ascii '' .env '' @ [0x6587, 0x4EF6, 0xFF0C, 0x8BBE,
             0x7F6E, 0x4EE5, 0x4E0B, 0x53D8, 0x91CF, 0xFF1A]]
         @ map (\<lambda>varName. ascii ''   '' @ varName @ ascii ''=your-value-here'') missing
         @ [[0x000A, 0x6216, 0x8005, 0x5728] @ ascii '' Claude Desktop '' @ [0x914D, 0x7F6E,
              0x4E2D, 0x6DFB, 0x52A0] @ ascii '' env '' @ [0x5B57, 0x6BB5, 0xFF1A],
            stringify (launcher_example missing)],
         Some 1)
      else
        ([[0x2705] @ ascii '' '' @ [0x73AF, 0x5883, 0x53D8, 0x91CF, 0x9A8C, 0x8BC1, 0x901A, 0x8FC7],
          ascii ''   SERVER_NAME: '' @ string_or_undefined (env (ascii ''SERVER_NAME'')),
          ascii ''   API_KEY: ''
             @ string_or_undefined (map_option (take 5) (env (ascii ''API_KEY'')))
             @ ascii ''***''],
         None))"

text \<open>
  The module from its first statement: \<open>validateEnvironment()\<close> runs before the server
  is created and before \<open>main()\<close> connects the transport. \<open>connect\<close> is what
  \<open>server.connect(transport)\<close> does: \<open>None\<close> when it resolves, \<open>Some e\<close> when it rejects,
  \<open>e\<close> being the text \<open>console.error\<close> prints for the rejection.
\<close>

record run =
  stderr :: "jstring list"
  exit_status :: "nat option"
  connected :: bool

definition start :: "environ \<Rightarrow> jstring option \<Rightarrow> run" where
  "start env connect =
     (case validateEnvironment env of
        (log, Some status) \<Rightarrow> \<lparr>stderr = log, exit_status = Some status, connected = False\<rparr>
      | (log, None) \<Rightarrow>
          (case connect of
             None \<Rightarrow>
               \<lparr>stderr = log @ [ascii ''MCP '' @ [0x670D, 0x52A1, 0x5668, 0x6B63, 0x5728, 0x8FD0,
                    0x884C] @ ascii ''...''],
                exit_status = None, connected = True\<rparr>
           | Some e \<Rightarrow>
               \<lparr>stderr = log @ [[0x670D, 0x52A1, 0x5668, 0x9519, 0x8BEF] @ ascii '':'' @ ascii '' '' @ e],
                exit_status = Some 1, connected = False\<rparr>))"

section \<open>The tool registry and \<open>list_tools\<close>\<close>

record tool =
  name :: jstring
  description :: jstring
  inputSchema :: json

definition TOOLS :: "tool list" where
  "TOOLS =
     [\<lparr>name = ascii ''echo'',
       description = [0x8FD4, 0x56DE, 0x8F93, 0x5165, 0x7684, 0x6587, 0x672C],
       inputSchema = JObj
         [(ascii ''type'', JStr (ascii ''object'')),
          (ascii ''properties'', JObj
            [(ascii ''message'', JObj
               [(ascii ''type'', JStr (ascii ''string'')),
                (ascii ''description'', JStr [0x8981, 0x8FD4, 0x56DE, 0x7684, 0x6D88, 0x606F])])]),
          (ascii ''required'', JArr [JStr (ascii ''message'')])]\<rparr>,
      \<lparr>name = ascii ''get_time'',
       description = [0x83B7, 0x53D6, 0x5F53, 0x524D, 0x65F6, 0x95F4],
       inputSchema = JObj
         [(ascii ''type'', JStr (ascii ''object'')),
          (ascii ''properties'', JObj [])]\<rparr>,
      \<lparr>name = ascii ''get_env'',
       description = [0x83B7, 0x53D6, 0x73AF, 0x5883, 0x53D8, 0x91CF, 0x7684, 0x503C],
       inputSchema = JObj
         [(ascii ''type'', JStr (ascii ''object'')),
          (ascii ''properties'', JObj
            [(ascii ''key'', JObj
               [(ascii ''type'', JStr (ascii ''string'')),
                (ascii ''description'', JStr [0x73AF, 0x5883, 0x53D8, 0x91CF, 0x7684, 0x952E,
                   0x540D])])]),
          (ascii ''required'', JArr [JStr (ascii ''key'')])]\<rparr>,
      \<lparr>name = ascii ''get_config'',
       description = [0x83B7, 0x53D6, 0x670D, 0x52A1, 0x5668, 0x914D, 0x7F6E, 0x4FE1, 0x606F,
          0xFF08, 0x4ECE, 0x73AF, 0x5883, 0x53D8, 0x91CF, 0x8BFB, 0x53D6, 0xFF09],
       inputSchema = JObj
         [(ascii ''type'', JStr (ascii ''object'')),
          (ascii ''properties'', JObj [])]\<rparr>]"

text \<open>
  The handler of \<open>ListToolsRequestSchema\<close>. It takes no argument; the environment it
  could read as any code of the process can is made a parameter.
\<close>

record list_tools_result =
  tools :: "tool list"

definition list_tools :: "environ \<Rightarrow> list_tools_result" where
  "list_tools env = \<lparr>tools = TOOLS\<rparr>"

section \<open>The handler of \<open>CallToolRequestSchema\<close>\<close>

text \<open>
  A result: its \<open>content\<close> and its \<open>isError\<close> property, \<open>None\<close> when the object has no
  such property (every result of the \<open>switch\<close>).
\<close>

record content_item =
  item_type :: jstring
  item_text :: jstring

record tool_result =
  content :: "content_item list"
  isError :: "bool option"

definition text_item :: "jstring \<Rightarrow> content_item" where
  "text_item t = \<lparr>item_type = ascii ''text'', item_text = t\<rparr>"

text \<open>
  \<open>args?.message\<close> and \<open>args?.key\<close>: \<open>undefined\<close> when \<open>args\<close> is \<open>undefined\<close> or
  \<open>null\<close>, the own property of an object, and \<open>undefined\<close> for every other value, no
  prototype having a member of either name.
\<close>

definition member :: "json option \<Rightarrow> jstring \<Rightarrow> json option" where
  "member args k = (case args of Some (JObj kvs) \<Rightarrow> map_of kvs k | _ \<Rightarrow> None)"

text \<open>The object \<open>config\<close> of the \<open>get_config\<close> case.\<close>

record config =
  serverName :: jstring
  environment :: jstring
  port :: jstring
  apiKey :: jstring
  customSetting :: jstring

definition not_set :: jstring where
  "not_set = [0x672A, 0x8BBE, 0x7F6E]"

definition get_config :: "environ \<Rightarrow> config" where
  "get_config env =
     \<lparr>serverName = or_else (env (ascii ''SERVER_NAME'')) not_set,
      environment = or_else (env (ascii ''NODE_ENV'')) (ascii ''development''),
      port = or_else (env (ascii ''PORT'')) not_set,
      apiKey = (if truthy (env (ascii ''API_KEY''))
                then [0x5DF2, 0x8BBE, 0x7F6E] @ ascii '' (***'' @ [0x9690, 0x85CF] @ ascii '')''
                else not_set),
      customSetting = or_else (env (ascii ''CUSTOM_SETTING'')) not_set\<rparr>"

definition config_json :: "config \<Rightarrow> json" where
  "config_json c =
     JObj [(ascii ''serverName'', JStr (serverName c)),
           (ascii ''environment'', JStr (environment c)),
           (ascii ''port'', JStr (port c)),
           (ascii ''apiKey'', JStr (apiKey c)),
           (ascii ''customSetting'', JStr (customSetting c))]"

text \<open>
  The \<open>try\<close> block: the \<open>switch\<close> on the request's \<open>name\<close>, \<open>Inl\<close> what it throws. \<open>now\<close> is the clock
  reading as \<open>toLocaleString("zh-CN", {timeZone: "Asia/Shanghai"})\<close> prints it.
\<close>

definition switch :: "environ \<Rightarrow> jstring \<Rightarrow> jstring \<Rightarrow> json option \<Rightarrow> js_exn + tool_result" where
  "switch env now request_name args =
     (if request_name = ascii ''echo'' then
        (case to_string_opt (member args (ascii ''message'')) of
           Inl e \<Rightarrow> Inl e
         | Inr message \<Rightarrow>
             Inr \<lparr>content = [text_item ([0x56DE, 0x663E] @ ascii '': '' @ message)],
                  isError = None\<rparr>)
      else if request_name = ascii ''get_time'' then
        Inr \<lparr>content = [text_item ([0x5F53, 0x524D, 0x65F6, 0x95F4] @ ascii '': '' @ now)],
             isError = None\<rparr>
      else if request_name = ascii ''get_env'' then
        (case to_string_opt (member args (ascii ''key'')) of
           Inl e \<Rightarrow> Inl e
         | Inr key \<Rightarrow>
             (case env_read env key of
                None \<Rightarrow>
                  Inr \<lparr>content = [text_item ([0x73AF, 0x5883, 0x53D8, 0x91CF] @ ascii '' '' @ key
                          @ ascii '' '' @ not_set)],
                       isError = None\<rparr>
              | Some v \<Rightarrow>
                  Inr \<lparr>content = [text_item (key @ ascii '' = '' @ env_value_text v)],
                       isError = None\<rparr>))
      else if request_name = ascii ''get_config'' then
        Inr \<lparr>content = [text_item ([0x670D, 0x52A1, 0x5668, 0x914D, 0x7F6E] @ ascii '':''
                 @ [0x000A] @ stringify (config_json (get_config env)))],
             isError = None\<rparr>
      else Inl (Error ([0x672A, 0x77E5, 0x5DE5, 0x5177] @ ascii '': '' @ request_name)))"

text \<open>
  The handler: the \<open>try\<close> block and its \<open>catch\<close>. Both things the block throws are
  instances of \<open>Error\<close>, so the text is made from \<open>error.message\<close>.
\<close>

definition call_tool :: "environ \<Rightarrow> jstring \<Rightarrow> jstring \<Rightarrow> json option \<Rightarrow> tool_result" where
  "call_tool env now request_name args =
     (case switch env now request_name args of
        Inr result \<Rightarrow> result
      | Inl error \<Rightarrow>
          \<lparr>content = [text_item ([0x9519, 0x8BEF] @ ascii '': '' @ exn_message error)],
           isError = Some True\<rparr>)"

section \<open>Basic facts\<close>

lemma of_char_nat_less: "(of_char x :: nat) < 256"
proof -
  have "(of_char x :: nat) mod 256 < 256"
    by (rule mod_less_divisor) simp
  then show ?thesis
    by (simp only: of_char_mod_256)
qed

lemma unat_of_char: "unat (of_char x :: 16 word) = of_char x"
proof -
  have w: "(of_char x :: 16 word) = of_nat (of_char x)"
    by (simp add: of_nat_of_char)
  have "(256 :: nat) < 2 ^ 16"
    by simp
  with of_char_nat_less [of x] have "(of_char x :: nat) < 2 ^ 16"
    by (rule less_trans)
  then have "unat (of_nat (of_char x) :: 16 word) = of_char x"
    by (simp add: unat_of_nat)
  then show ?thesis
    using w by simp
qed

lemma of_char_word_eq_iff: "(of_char c :: 16 word) = of_char d \<longleftrightarrow> c = d"
proof
  assume "(of_char c :: 16 word) = of_char d"
  then have "unat (of_char c :: 16 word) = unat (of_char d :: 16 word)"
    by simp
  then have "(of_char c :: nat) = of_char d"
    by (simp only: unat_of_char)
  then show "c = d"
    by simp
qed simp

lemma ascii_eq_iff [simp]: "ascii s = ascii t \<longleftrightarrow> s = t"
  unfolding ascii_def
proof (induction s arbitrary: t)
  case Nil
  then show ?case by (cases t) simp_all
next
  case (Cons c s)
  then show ?case by (cases t) (simp_all add: of_char_word_eq_iff)
qed

lemma tool_names:
  "map name TOOLS = [ascii ''echo'', ascii ''get_time'', ascii ''get_env'', ascii ''get_config'']"
  by (simp add: TOOLS_def)

lemma switch_echo:
  "switch env now (ascii ''echo'') args =
     (case to_string_opt (member args (ascii ''message'')) of
        Inl e \<Rightarrow> Inl e
      | Inr m \<Rightarrow> Inr \<lparr>content = [text_item ([0x56DE, 0x663E] @ ascii '': '' @ m)], isError = None\<rparr>)"
  by (simp add: switch_def)

lemma switch_get_time:
  "switch env now (ascii ''get_time'') args =
     Inr \<lparr>content = [text_item ([0x5F53, 0x524D, 0x65F6, 0x95F4] @ ascii '': '' @ now)],
          isError = None\<rparr>"
  by (simp add: switch_def)

lemma switch_get_env:
  "switch env now (ascii ''get_env'') args =
     (case to_string_opt (member args (ascii ''key'')) of
        Inl e \<Rightarrow> Inl e
      | Inr key \<Rightarrow>
          (case env_read env key of
             None \<Rightarrow>
               Inr \<lparr>content = [text_item ([0x73AF, 0x5883, 0x53D8, 0x91CF] @ ascii '' '' @ key
                       @ ascii '' '' @ not_set)],
                    isError = None\<rparr>
           | Some v \<Rightarrow>
               Inr \<lparr>content = [text_item (key @ ascii '' = '' @ env_value_text v)],
                    isError = None\<rparr>))"
  by (simp add: switch_def)

lemma switch_get_config:
  "switch env now (ascii ''get_config'') args =
     Inr \<lparr>content = [text_item ([0x670D, 0x52A1, 0x5668, 0x914D, 0x7F6E] @ ascii '':''
              @ [0x000A] @ stringify (config_json (get_config env)))],
          isError = None\<rparr>"
  by (simp add: switch_def)

lemma switch_unknown:
  "request_name \<notin> set (map name TOOLS) \<Longrightarrow>
   switch env now request_name args =
     Inl (Error ([0x672A, 0x77E5, 0x5DE5, 0x5177] @ ascii '': '' @ request_name))"
  by (simp add: switch_def tool_names)

lemma switch_single_text:
  "switch env now request_name args = Inr r \<Longrightarrow> isError r = None \<and> (\<exists>t. content r = [text_item t])"
  by (auto simp: switch_def split: if_splits sum.splits option.splits)

lemma truthy_iff: "truthy v \<longleftrightarrow> v \<noteq> None \<and> v \<noteq> Some []"
  by (simp add: truthy_def split: option.splits)

lemma env_read_variable:
  "k \<notin> set object_prototype_names \<Longrightarrow> env_read env k = map_option Variable (env k)"
  by (simp add: env_read_def split: option.splits)

lemma static_names_not_inherited:
  "set (map ascii [''API_KEY'', ''SERVER_NAME'', ''NODE_ENV'', ''PORT'', ''CUSTOM_SETTING''])
     \<inter> set object_prototype_names = {}"
  by (simp add: object_prototype_names_def)

lemma missing_vars_cases:
  "missing_vars env =
     (if env (ascii ''API_KEY'') = None \<or> env (ascii ''API_KEY'') = Some [] then [ascii ''API_KEY''] else [])
     @ (if env (ascii ''SERVER_NAME'') = None \<or> env (ascii ''SERVER_NAME'') = Some []
        then [ascii ''SERVER_NAME''] else [])"
  by (simp add: missing_vars_def REQUIRED_ENV_VARS_def truthy_iff)

lemma get_env_set:
  "member args (ascii ''key'') = Some (JStr k) \<Longrightarrow> env k = Some v \<Longrightarrow>
   call_tool env now (ascii ''get_env'') args =
     \<lparr>content = [text_item (k @ ascii '' = '' @ v)], isError = None\<rparr>"
  by (simp add: call_tool_def switch_get_env env_read_def env_value_text_def)

lemma get_env_unset:
  "member args (ascii ''key'') = Some (JStr k) \<Longrightarrow> env k = None \<Longrightarrow>
   k \<notin> set object_prototype_names \<Longrightarrow>
   call_tool env now (ascii ''get_env'') args =
     \<lparr>content = [text_item ([0x73AF, 0x5883, 0x53D8, 0x91CF] @ ascii '' '' @ k @ ascii '' '' @ not_set)],
      isError = None\<rparr>"
  by (simp add: call_tool_def switch_get_env env_read_def)

lemma get_config_depends:
  assumes "\<forall>k. k \<noteq> ascii ''API_KEY'' \<longrightarrow> env k = env' k"
    and "truthy (env (ascii ''API_KEY'')) = truthy (env' (ascii ''API_KEY''))"
  shows "get_config env = get_config env'"
proof -
  have "env (ascii ''SERVER_NAME'') = env' (ascii ''SERVER_NAME'')"
    "env (ascii ''NODE_ENV'') = env' (ascii ''NODE_ENV'')"
    "env (ascii ''PORT'') = env' (ascii ''PORT'')"
    "env (ascii ''CUSTOM_SETTING'') = env' (ascii ''CUSTOM_SETTING'')"
    using assms(1) by simp_all
  then show ?thesis
    using assms(2) by (simp add: get_config_def)
qed

lemma to_string_convertible:
  "(\<exists>s. to_string v = Inr s) \<longleftrightarrow> convertible v"
  "(\<exists>s. join_elements vs = Inr s) \<longleftrightarrow> all_convertible vs"
  by (induction v and vs rule: to_string_join_elements.induct)
     (auto split: sum.splits if_splits)

lemma to_string_opt_throws:
  "(\<exists>e. to_string_opt a = Inl e) \<longleftrightarrow> (\<exists>v. a = Some v \<and> \<not> convertible v)"
proof (cases a)
  case None
  then show ?thesis by simp
next
  case (Some v)
  have "(\<exists>e. to_string v = Inl e) \<longleftrightarrow> \<not> (\<exists>s. to_string v = Inr s)"
    by (cases "to_string v") simp_all
  then show ?thesis
    using Some by (simp add: to_string_convertible(1))
qed

lemma switch_throws_registered:
  "request_name \<in> set (map name TOOLS) \<Longrightarrow>
   (\<exists>e. switch env now request_name args = Inl e) \<longleftrightarrow>
     (request_name = ascii ''echo'' \<and> (\<exists>e. to_string_opt (member args (ascii ''message'')) = Inl e))
     \<or> (request_name = ascii ''get_env'' \<and> (\<exists>e. to_string_opt (member args (ascii ''key'')) = Inl e))"
  by (auto simp: tool_names switch_echo switch_get_time switch_get_env switch_get_config
      split: sum.splits option.splits)

section \<open>The claims\<close>

text \<open>
  C1. Whatever the \<open>try\<close> block throws is caught by the handler and becomes a result
  with \<open>isError: true\<close> and one text item made of the error's message; a request
  naming none of the four tools throws the unknown-tool error, whose message names the
  tool; what the block returns is returned unchanged; and every result, of either kind,
  has exactly one text item. The handler is a total function of the environment, the
  clock and the request that changes none of them, so each request is answered whatever
  came before it.
\<close>

theorem call_tool_catches:
  "(\<forall>e. switch env now request_name args = Inl e \<longrightarrow>
      call_tool env now request_name args =
        \<lparr>content = [text_item ([0x9519, 0x8BEF] @ ascii '': '' @ exn_message e)],
         isError = Some True\<rparr>)
   \<and> (\<forall>r. switch env now request_name args = Inr r \<longrightarrow>
        call_tool env now request_name args = r)
   \<and> (request_name \<notin> set (map name TOOLS) \<longrightarrow>
        call_tool env now request_name args =
          \<lparr>content = [text_item ([0x9519, 0x8BEF] @ ascii '': ''
                   @ [0x672A, 0x77E5, 0x5DE5, 0x5177] @ ascii '': '' @ request_name)],
           isError = Some True\<rparr>)
   \<and> (\<exists>t. content (call_tool env now request_name args) = [text_item t])"
proof (intro conjI allI impI)
  fix e assume "switch env now request_name args = Inl e"
  then show "call_tool env now request_name args =
        \<lparr>content = [text_item ([0x9519, 0x8BEF] @ ascii '': '' @ exn_message e)],
         isError = Some True\<rparr>"
    by (simp add: call_tool_def)
next
  fix r assume "switch env now request_name args = Inr r"
  then show "call_tool env now request_name args = r"
    by (simp add: call_tool_def)
next
  assume "request_name \<notin> set (map name TOOLS)"
  then show "call_tool env now request_name args =
          \<lparr>content = [text_item ([0x9519, 0x8BEF] @ ascii '': ''
                   @ [0x672A, 0x77E5, 0x5DE5, 0x5177] @ ascii '': '' @ request_name)],
           isError = Some True\<rparr>"
    by (simp add: call_tool_def switch_unknown)
next
  show "\<exists>t. content (call_tool env now request_name args) = [text_item t]"
  proof (cases "switch env now request_name args")
    case (Inl e)
    then show ?thesis by (auto simp add: call_tool_def)
  next
    case (Inr r)
    then show ?thesis using switch_single_text [OF Inr] by (simp add: call_tool_def)
  qed
qed


theorem call_tool_catches_witness:
  "call_tool Map.empty [] (ascii ''bogus_tool'') (Some (JObj [])) =
     \<lparr>content = [text_item ([0x9519, 0x8BEF] @ ascii '': ''
              @ [0x672A, 0x77E5, 0x5DE5, 0x5177] @ ascii '': '' @ ascii ''bogus_tool'')],
      isError = Some True\<rparr>
   \<and> call_tool Map.empty [] (ascii ''echo'') (Some (JObj [(ascii ''message'', JStr (ascii ''hi''))])) =
     \<lparr>content = [text_item ([0x56DE, 0x663E] @ ascii '': '' @ ascii ''hi'')], isError = None\<rparr>"
proof -
  have unknown: "ascii ''bogus_tool'' \<notin> set (map name TOOLS)"
    by (simp add: tool_names)
  have valid: "switch Map.empty [] (ascii ''echo'') (Some (JObj [(ascii ''message'', JStr (ascii ''hi''))])) =
      Inr \<lparr>content = [text_item ([0x56DE, 0x663E] @ ascii '': '' @ ascii ''hi'')], isError = None\<rparr>"
    by (simp add: switch_echo member_def)
  show ?thesis
    using call_tool_catches [of Map.empty "[]" "ascii ''bogus_tool''" "Some (JObj [])"]
      call_tool_catches [of Map.empty "[]" "ascii ''echo''" "Some (JObj [(ascii ''message'', JStr (ascii ''hi''))])"]
      unknown valid
    by simp
qed

text \<open>
  C2. The names \<open>validateEnvironment\<close> collects are exactly those of \<open>API_KEY\<close> and
  \<open>SERVER_NAME\<close> whose variable is absent or empty, in that order. When there is one, the
  process exits with status 1 and the transport is never connected; the second line of
  the diagnostic lists the collected names and no other, each collected name has its
  \<open>NAME=your-value-here\<close> line, and the last line is the example launcher configuration
  with its \<open>env\<close> block. When there is none, \<open>validateEnvironment\<close> returns and startup
  goes on to connect.
\<close>

theorem startup_validation:
  "missing_vars env =
     (if env (ascii ''API_KEY'') = None \<or> env (ascii ''API_KEY'') = Some [] then [ascii ''API_KEY''] else [])
     @ (if env (ascii ''SERVER_NAME'') = None \<or> env (ascii ''SERVER_NAME'') = Some []
        then [ascii ''SERVER_NAME''] else [])
   \<and> (missing_vars env \<noteq> [] \<longrightarrow>
        exit_status (start env connect) = Some 1
        \<and> \<not> connected (start env connect)
        \<and> stderr (start env connect) ! 1 =
            [0x000A, 0x7F3A, 0x5C11, 0x7684, 0x53D8, 0x91CF] @ ascii '': ''
              @ join (ascii '', '') (missing_vars env) @ [0x000A]
        \<and> (\<forall>varName \<in> set (missing_vars env).
              ascii ''   '' @ varName @ ascii ''=your-value-here'' \<in> set (stderr (start env connect)))
        \<and> last (stderr (start env connect)) = stringify (launcher_example (missing_vars env)))
   \<and> (missing_vars env = [] \<longrightarrow>
        snd (validateEnvironment env) = None
        \<and> exit_status (start env None) = None
        \<and> connected (start env None))"
proof (intro conjI impI)
  show "missing_vars env =
     (if env (ascii ''API_KEY'') = None \<or> env (ascii ''API_KEY'') = Some [] then [ascii ''API_KEY''] else [])
     @ (if env (ascii ''SERVER_NAME'') = None \<or> env (ascii ''SERVER_NAME'') = Some []
        then [ascii ''SERVER_NAME''] else [])"
    by (rule missing_vars_cases)
next
  assume m: "missing_vars env \<noteq> []"
  then show "exit_status (start env connect) = Some 1"
    by (simp add: start_def validateEnvironment_def Let_def)
  from m show "\<not> connected (start env connect)"
    by (simp add: start_def validateEnvironment_def Let_def)
  from m show "stderr (start env connect) ! 1 =
            [0x000A, 0x7F3A, 0x5C11, 0x7684, 0x53D8, 0x91CF] @ ascii '': ''
              @ join (ascii '', '') (missing_vars env) @ [0x000A]"
    by (simp add: start_def validateEnvironment_def Let_def)
  from m show "\<forall>varName \<in> set (missing_vars env).
              ascii ''   '' @ varName @ ascii ''=your-value-here'' \<in> set (stderr (start env connect))"
    by (simp add: start_def validateEnvironment_def Let_def)
  from m show "last (stderr (start env connect)) = stringify (launcher_example (missing_vars env))"
    by (simp add: start_def validateEnvironment_def Let_def)
next
  assume m: "missing_vars env = []"
  then show "snd (validateEnvironment env) = None"
    by (simp add: validateEnvironment_def Let_def)
  from m show "exit_status (start env None) = None"
    by (simp add: start_def validateEnvironment_def Let_def)
  from m show "connected (start env None)"
    by (simp add: start_def validateEnvironment_def Let_def)
qed

theorem startup_validation_witness:
  "missing_vars [ascii ''SERVER_NAME'' \<mapsto> ascii ''demo''] = [ascii ''API_KEY'']
   \<and> exit_status (start [ascii ''SERVER_NAME'' \<mapsto> ascii ''demo''] None) = Some 1
   \<and> \<not> connected (start [ascii ''SERVER_NAME'' \<mapsto> ascii ''demo''] None)
   \<and> stderr (start [ascii ''SERVER_NAME'' \<mapsto> ascii ''demo''] None) ! 1 =
        [0x000A, 0x7F3A, 0x5C11, 0x7684, 0x53D8, 0x91CF] @ ascii '': '' @ ascii ''API_KEY'' @ [0x000A]
   \<and> missing_vars [ascii ''SERVER_NAME'' \<mapsto> ascii ''demo'', ascii ''API_KEY'' \<mapsto> ascii ''k''] = []
   \<and> connected (start [ascii ''SERVER_NAME'' \<mapsto> ascii ''demo'', ascii ''API_KEY'' \<mapsto> ascii ''k''] None)"
proof -
  have a: "missing_vars [ascii ''SERVER_NAME'' \<mapsto> ascii ''demo''] = [ascii ''API_KEY'']"
    using startup_validation [of "[ascii ''SERVER_NAME'' \<mapsto> ascii ''demo'']" None]
    by (simp add: ascii_def)
  have b: "missing_vars [ascii ''SERVER_NAME'' \<mapsto> ascii ''demo'', ascii ''API_KEY'' \<mapsto> ascii ''k''] = []"
    using startup_validation [of "[ascii ''SERVER_NAME'' \<mapsto> ascii ''demo'', ascii ''API_KEY'' \<mapsto> ascii ''k'']" None]
    by (simp add: ascii_def)
  show ?thesis
    using startup_validation [of "[ascii ''SERVER_NAME'' \<mapsto> ascii ''demo'']" None]
      startup_validation [of "[ascii ''SERVER_NAME'' \<mapsto> ascii ''demo'', ascii ''API_KEY'' \<mapsto> ascii ''k'']" None]
    by (simp only: a b) simp
qed

text \<open>
  C3. The handler of \<open>list_tools\<close> returns the registry \<open>TOOLS\<close> itself: four descriptors,
  named \<open>echo\<close>, \<open>get_time\<close>, \<open>get_env\<close>, \<open>get_config\<close> in this order, with their
  descriptions and schemas as the registry has them, whatever the environment.
\<close>

theorem list_tools_fixed:
  "list_tools env = \<lparr>tools = TOOLS\<rparr>
   \<and> length (tools (list_tools env)) = 4
   \<and> map name (tools (list_tools env)) =
       [ascii ''echo'', ascii ''get_time'', ascii ''get_env'', ascii ''get_config'']
   \<and> list_tools env = list_tools env'"
  by (simp add: list_tools_def tool_names [symmetric]) (simp add: TOOLS_def)

text \<open>
  C4. With \<open>API_KEY\<close> and \<open>SERVER_NAME\<close> set and no variable named \<open>toString\<close>, the call
  \<open>get_env\<close> with the key \<open>toString\<close> does not answer that the variable is unset: the read
  \<open>process.env[key]\<close> finds the member \<open>toString\<close> of \<open>Object.prototype\<close>, which is not
  \<open>undefined\<close>, and the handler prints that function as if it were the variable's value.
  (For a key that is set, and for an unset key that is none of the twelve inherited
  names, the handler answers with the value, or that the variable is unset:
  \<open>get_env_set\<close> and \<open>get_env_unset\<close> above.)
\<close>

theorem get_env_inherited_member:
  "[ascii ''API_KEY'' \<mapsto> ascii ''k'', ascii ''SERVER_NAME'' \<mapsto> ascii ''demo''] (ascii ''toString'') = None
   \<and> call_tool [ascii ''API_KEY'' \<mapsto> ascii ''k'', ascii ''SERVER_NAME'' \<mapsto> ascii ''demo''] now
        (ascii ''get_env'') (Some (JObj [(ascii ''key'', JStr (ascii ''toString''))])) =
      \<lparr>content = [text_item (ascii ''toString = function toString() { [native code] }'')],
       isError = None\<rparr>"
  by (simp add: call_tool_def switch_get_env member_def env_read_def object_prototype_names_def
      env_value_text_def) (simp add: ascii_def)

text \<open>
  C5. Two environments that differ only in the value of \<open>API_KEY\<close>, non-empty in both,
  get the same result from \<open>get_config\<close>: the value of the key does not flow into the
  text, whose \<open>apiKey\<close> field is the fixed presence indicator.
\<close>

theorem get_config_hides_api_key:
  "(\<forall>k. k \<noteq> ascii ''API_KEY'' \<longrightarrow> env k = env' k) \<Longrightarrow>
   env (ascii ''API_KEY'') = Some v \<Longrightarrow> v \<noteq> [] \<Longrightarrow>
   env' (ascii ''API_KEY'') = Some v' \<Longrightarrow> v' \<noteq> [] \<Longrightarrow>
   call_tool env now (ascii ''get_config'') args = call_tool env' now (ascii ''get_config'') args
   \<and> apiKey (get_config env) = [0x5DF2, 0x8BBE, 0x7F6E] @ ascii '' (***'' @ [0x9690, 0x85CF] @ ascii '')''"
proof -
  assume same: "\<forall>k. k \<noteq> ascii ''API_KEY'' \<longrightarrow> env k = env' k"
    and v: "env (ascii ''API_KEY'') = Some v" "v \<noteq> []"
    and v': "env' (ascii ''API_KEY'') = Some v'" "v' \<noteq> []"
  have "truthy (env (ascii ''API_KEY'')) = truthy (env' (ascii ''API_KEY''))"
    using v v' by (simp add: truthy_def)
  with same have "get_config env = get_config env'"
    by (rule get_config_depends)
  then have "call_tool env now (ascii ''get_config'') args = call_tool env' now (ascii ''get_config'') args"
    by (simp add: call_tool_def switch_get_config)
  moreover have "apiKey (get_config env) = [0x5DF2, 0x8BBE, 0x7F6E] @ ascii '' (***'' @ [0x9690, 0x85CF] @ ascii '')''"
    using v by (simp add: get_config_def truthy_def)
  ultimately show ?thesis by simp
qed

theorem get_config_hides_api_key_witness:
  "call_tool [ascii ''SERVER_NAME'' \<mapsto> ascii ''demo'', ascii ''API_KEY'' \<mapsto> ascii ''secret-one''] []
      (ascii ''get_config'') None =
   call_tool [ascii ''SERVER_NAME'' \<mapsto> ascii ''demo'', ascii ''API_KEY'' \<mapsto> ascii ''another-key''] []
      (ascii ''get_config'') None"
proof -
  have "call_tool [ascii ''SERVER_NAME'' \<mapsto> ascii ''demo'', ascii ''API_KEY'' \<mapsto> ascii ''secret-one''] []
      (ascii ''get_config'') None =
   call_tool [ascii ''SERVER_NAME'' \<mapsto> ascii ''demo'', ascii ''API_KEY'' \<mapsto> ascii ''another-key''] []
      (ascii ''get_config'') None
     \<and> apiKey (get_config [ascii ''SERVER_NAME'' \<mapsto> ascii ''demo'', ascii ''API_KEY'' \<mapsto> ascii ''secret-one'']) =
       [0x5DF2, 0x8BBE, 0x7F6E] @ ascii '' (***'' @ [0x9690, 0x85CF] @ ascii '')''"
  proof (rule get_config_hides_api_key)
    show "\<forall>k. k \<noteq> ascii ''API_KEY'' \<longrightarrow>
       [ascii ''SERVER_NAME'' \<mapsto> ascii ''demo'', ascii ''API_KEY'' \<mapsto> ascii ''secret-one''] k =
       [ascii ''SERVER_NAME'' \<mapsto> ascii ''demo'', ascii ''API_KEY'' \<mapsto> ascii ''another-key''] k"
      by simp
    show "[ascii ''SERVER_NAME'' \<mapsto> ascii ''demo'', ascii ''API_KEY'' \<mapsto> ascii ''secret-one''] (ascii ''API_KEY'') = Some (ascii ''secret-one'')"
      by simp
    show "ascii ''secret-one'' \<noteq> []" by (simp add: ascii_def)
    show "[ascii ''SERVER_NAME'' \<mapsto> ascii ''demo'', ascii ''API_KEY'' \<mapsto> ascii ''another-key''] (ascii ''API_KEY'') = Some (ascii ''another-key'')"
      by simp
    show "ascii ''another-key'' \<noteq> []" by (simp add: ascii_def)
  qed
  then show ?thesis by simp
qed

text \<open>
  C6, as stated, fails: with \<open>NODE_ENV\<close> absent the field \<open>environment\<close> of the snapshot is
  \<open>development\<close>, not the sentinel.
\<close>

theorem environment_default_counterexample:
  "Map.empty (ascii ''NODE_ENV'') = (None :: jstring option)
   \<and> environment (get_config Map.empty) = ascii ''development''
   \<and> environment (get_config Map.empty) \<noteq> not_set"
  by (simp add: get_config_def or_else_def not_set_def ascii_def)

text \<open>
  C6, amended. In the snapshot of \<open>get_config\<close> the fields \<open>serverName\<close>, \<open>port\<close>,
  \<open>apiKey\<close> and \<open>customSetting\<close> are the sentinel \<open>not_set\<close> when their variable is absent,
  and \<open>environment\<close> is \<open>development\<close> when \<open>NODE_ENV\<close> is absent; the result is one text
  item, the heading followed by \<open>JSON.stringify\<close> of these five fields.
\<close>

theorem get_config_defaults:
  "(env (ascii ''SERVER_NAME'') = None \<longrightarrow> serverName (get_config env) = not_set)
   \<and> (env (ascii ''NODE_ENV'') = None \<longrightarrow> environment (get_config env) = ascii ''development'')
   \<and> (env (ascii ''PORT'') = None \<longrightarrow> port (get_config env) = not_set)
   \<and> (env (ascii ''API_KEY'') = None \<longrightarrow> apiKey (get_config env) = not_set)
   \<and> (env (ascii ''CUSTOM_SETTING'') = None \<longrightarrow> customSetting (get_config env) = not_set)
   \<and> call_tool env now (ascii ''get_config'') args =
       \<lparr>content = [text_item ([0x670D, 0x52A1, 0x5668, 0x914D, 0x7F6E] @ ascii '':''
                @ [0x000A] @ stringify (config_json (get_config env)))],
        isError = None\<rparr>"
  by (simp add: get_config_def or_else_def truthy_def call_tool_def switch_get_config)

theorem get_config_defaults_witness:
  "get_config Map.empty =
     \<lparr>serverName = not_set, environment = ascii ''development'', port = not_set,
      apiKey = not_set, customSetting = not_set\<rparr>"
  using get_config_defaults [of Map.empty "[]" None]
  by (cases "get_config Map.empty") simp

text \<open>
  C7. \<open>echo\<close> with a string \<open>message\<close> returns a success with one text item, the
  prefix (the two characters U+56DE U+663E, a colon and a space) followed by the message,
  in every environment and at every time.
\<close>

theorem echo_string:
  "member args (ascii ''message'') = Some (JStr m) \<Longrightarrow>
   call_tool env now (ascii ''echo'') args =
     \<lparr>content = [text_item ([0x56DE, 0x663E] @ ascii '': '' @ m)], isError = None\<rparr>"
  by (simp add: call_tool_def switch_echo)

theorem echo_string_witness:
  "call_tool Map.empty [] (ascii ''echo'') (Some (JObj [(ascii ''message'', JStr (ascii ''hi''))])) =
     \<lparr>content = [\<lparr>item_type = ascii ''text'', item_text = [0x56DE, 0x663E] @ ascii '': hi''\<rparr>],
      isError = None\<rparr>"
proof -
  have "member (Some (JObj [(ascii ''message'', JStr (ascii ''hi''))])) (ascii ''message'') = Some (JStr (ascii ''hi''))"
    by (simp add: member_def)
  from echo_string [OF this] show ?thesis
    by (simp add: text_item_def ascii_def)
qed

text \<open>
  C8. Without its argument a handler goes on with \<open>undefined\<close>: \<open>echo\<close> without \<open>message\<close>
  returns the success whose text is the prefix followed by \<open>undefined\<close>, and \<open>get_env\<close>
  without \<open>key\<close> reads the variable named \<open>undefined\<close> and returns a success that says
  it is unset, or gives its value when there is such a variable. Neither is an error.
\<close>

theorem missing_argument:
  "(member args (ascii ''message'') = None \<longrightarrow>
      call_tool env now (ascii ''echo'') args =
        \<lparr>content = [text_item ([0x56DE, 0x663E] @ ascii '': '' @ ascii ''undefined'')],
         isError = None\<rparr>)
   \<and> (member args (ascii ''key'') = None \<longrightarrow>
      call_tool env now (ascii ''get_env'') args =
        \<lparr>content = [text_item
           (case env (ascii ''undefined'') of
              None \<Rightarrow> [0x73AF, 0x5883, 0x53D8, 0x91CF] @ ascii '' '' @ ascii ''undefined''
                        @ ascii '' '' @ not_set
            | Some v \<Rightarrow> ascii ''undefined'' @ ascii '' = '' @ v)],
         isError = None\<rparr>)"
  by (simp add: call_tool_def switch_echo switch_get_env env_read_def env_value_text_def
      object_prototype_names_def split: option.splits)

theorem missing_argument_witness:
  "call_tool Map.empty [] (ascii ''echo'') (Some (JObj [])) =
     \<lparr>content = [text_item ([0x56DE, 0x663E] @ ascii '': undefined'')], isError = None\<rparr>
   \<and> call_tool Map.empty [] (ascii ''get_env'') (Some (JObj [])) =
     \<lparr>content = [text_item ([0x73AF, 0x5883, 0x53D8, 0x91CF] @ ascii '' undefined '' @ not_set)],
      isError = None\<rparr>"
proof -
  have "member (Some (JObj [])) (ascii ''message'') = None"
    "member (Some (JObj [])) (ascii ''key'') = None"
    by (simp_all add: member_def)
  with missing_argument [of "Some (JObj [])" Map.empty "[]"] show ?thesis
    by (simp add: ascii_def)
qed

text \<open>
  C9. The result of a call is a function of the environment, the request and the clock,
  and the clock matters to \<open>get_time\<close> alone: for every other name two calls with the
  same environment and request give the same result whatever the time, and the result
  of \<open>get_time\<close> is a fixed prefix followed by the formatted time.
\<close>

theorem clock_only_in_get_time:
  "(request_name \<noteq> ascii ''get_time'' \<longrightarrow>
      call_tool env now request_name args = call_tool env now' request_name args)
   \<and> call_tool env now (ascii ''get_time'') args =
       \<lparr>content = [text_item ([0x5F53, 0x524D, 0x65F6, 0x95F4] @ ascii '': '' @ now)],
        isError = None\<rparr>"
  by (simp add: call_tool_def switch_get_time) (simp add: switch_def)

theorem clock_only_in_get_time_witness:
  "call_tool Map.empty (ascii ''2026/11/2 08:00:00'') (ascii ''echo'') None =
   call_tool Map.empty (ascii ''2026/11/2 08:00:01'') (ascii ''echo'') None
   \<and> call_tool Map.empty (ascii ''2026/11/2 08:00:00'') (ascii ''get_time'') None =
       \<lparr>content = [text_item ([0x5F53, 0x524D, 0x65F6, 0x95F4] @ ascii '': '' @ ascii ''2026/11/2 08:00:00'')],
        isError = None\<rparr>"
proof -
  have "ascii ''echo'' \<noteq> ascii ''get_time''"
    by simp
  with clock_only_in_get_time [of "ascii ''echo''" Map.empty "ascii ''2026/11/2 08:00:00''" None
      "ascii ''2026/11/2 08:00:01''"]
  show ?thesis by simp
qed

text \<open>
  C10, as stated, fails: \<open>echo\<close> is a registered tool, and with a \<open>message\<close> that is an
  object with an own \<open>toString\<close> property the template literal throws a \<open>TypeError\<close>;
  the \<open>catch\<close> answers with \<open>isError: true\<close>.
\<close>

theorem registered_tool_throws_counterexample:
  "ascii ''echo'' \<in> set (map name TOOLS)
   \<and> switch Map.empty [] (ascii ''echo'')
        (Some (JObj [(ascii ''message'', JObj [(ascii ''toString'', JNull)])])) =
      Inl to_primitive_failure
   \<and> isError (call_tool Map.empty [] (ascii ''echo'')
        (Some (JObj [(ascii ''message'', JObj [(ascii ''toString'', JNull)])]))) = Some True"
  by (simp add: tool_names call_tool_def switch_echo member_def)

text \<open>
  C10, amended. For a registered tool the \<open>try\<close> block throws exactly when the string
  conversion of the argument it prints throws: \<open>message\<close> for \<open>echo\<close>, \<open>key\<close> for
  \<open>get_env\<close>, a value that is not \<open>convertible\<close>; \<open>get_time\<close> and \<open>get_config\<close> never
  throw. The result has exactly one text item in every case, and \<open>isError\<close> is
  \<open>true\<close> when the block threw and absent when it did not.
\<close>

theorem registered_tool_result:
  assumes "request_name \<in> set (map name TOOLS)"
  shows "((\<exists>e. switch env now request_name args = Inl e) \<longleftrightarrow>
            (request_name = ascii ''echo''
               \<and> (\<exists>v. member args (ascii ''message'') = Some v \<and> \<not> convertible v))
            \<or> (request_name = ascii ''get_env''
               \<and> (\<exists>v. member args (ascii ''key'') = Some v \<and> \<not> convertible v)))
       \<and> (\<exists>t. content (call_tool env now request_name args) = [text_item t])
       \<and> isError (call_tool env now request_name args) =
           (if (\<exists>e. switch env now request_name args = Inl e) then Some True else None)"
proof (intro conjI)
  show "(\<exists>e. switch env now request_name args = Inl e) \<longleftrightarrow>
            (request_name = ascii ''echo''
               \<and> (\<exists>v. member args (ascii ''message'') = Some v \<and> \<not> convertible v))
            \<or> (request_name = ascii ''get_env''
               \<and> (\<exists>v. member args (ascii ''key'') = Some v \<and> \<not> convertible v))"
    using switch_throws_registered [OF assms] by (simp only: to_string_opt_throws)
next
  show "\<exists>t. content (call_tool env now request_name args) = [text_item t]"
  proof (cases "switch env now request_name args")
    case (Inl e)
    then show ?thesis by (auto simp add: call_tool_def)
  next
    case (Inr r)
    then show ?thesis using switch_single_text [OF Inr] by (simp add: call_tool_def)
  qed
next
  show "isError (call_tool env now request_name args) =
           (if (\<exists>e. switch env now request_name args = Inl e) then Some True else None)"
  proof (cases "switch env now request_name args")
    case (Inl e)
    then show ?thesis by (simp add: call_tool_def)
  next
    case (Inr r)
    then show ?thesis using switch_single_text [OF Inr] by (simp add: call_tool_def)
  qed
qed

theorem registered_tool_result_witness:
  "isError (call_tool Map.empty [] (ascii ''get_env'') (Some (JObj [(ascii ''key'', JStr (ascii ''HOME''))])))
     = None
   \<and> isError (call_tool Map.empty [] (ascii ''get_env'')
        (Some (JObj [(ascii ''key'', JArr [JObj [(ascii ''toString'', JBool True)]])]))) = Some True"
proof -
  have r: "ascii ''get_env'' \<in> set (map name TOOLS)"
    by (simp add: tool_names)
  have a: "member (Some (JObj [(ascii ''key'', JStr (ascii ''HOME''))])) (ascii ''key'') = Some (JStr (ascii ''HOME''))"
    by (simp add: member_def)
  have b: "member (Some (JObj [(ascii ''key'', JArr [JObj [(ascii ''toString'', JBool True)]])])) (ascii ''key'')
      = Some (JArr [JObj [(ascii ''toString'', JBool True)]])"
    by (simp add: member_def)
  show ?thesis
    using registered_tool_result [OF r, of Map.empty "[]" "Some (JObj [(ascii ''key'', JStr (ascii ''HOME''))])"]
      registered_tool_result [OF r, of Map.empty "[]"
        "Some (JObj [(ascii ''key'', JArr [JObj [(ascii ''toString'', JBool True)]])])"]
    by (simp add: a b)
qed

end
